theory Spec2Isabelle
  imports Main "HOL-Library.Word"
begin

section \<open>The constant table of \<^verbatim>\<open>src/constants.c\<close>\<close>

subsection \<open>Data model\<close>

text \<open>
  \<^verbatim>\<open>typedef struct constant { const char* name; uint64_t value; } constant_t;\<close>

  A \<^verbatim>\<open>const char*\<close> is either the null pointer or points to the characters of a string
  literal: \<open>None\<close> is \<^verbatim>\<open>NULL\<close>, \<open>Some s\<close> a pointer to the literal \<open>s\<close>. The empty
  string \<^verbatim>\<open>""\<close> is \<open>Some []\<close>, which is not \<open>None\<close>.
\<close>

record constant_t =
  name :: "string option"
  "value" :: "64 word"

text \<open>
  The macros \<^verbatim>\<open>SIOCGIFFLAGS\<close> and \<^verbatim>\<open>SIOCSIFFLAGS\<close> are expanded from the system headers
  \<^verbatim>\<open><sys/ioctl.h>\<close>, \<^verbatim>\<open><sys/socket.h>\<close> and \<^verbatim>\<open><net/if.h>\<close> of the compiling
  platform. They are integer constant expressions whose values the source file does not
  fix, so the platform is a parameter of the model.
\<close>

record platform =
  SIOCGIFFLAGS :: int
  SIOCSIFFLAGS :: int

text \<open>
  An initialiser of a \<^verbatim>\<open>uint64_t\<close> member converts the integer constant to the member's
  type: the value is reduced modulo \<open>2 ^ 64\<close>.
\<close>

definition to_uint64 :: "int \<Rightarrow> 64 word" where
  "to_uint64 i = word_of_int i"

text \<open>
  The initialiser of the function's \<^verbatim>\<open>static constant_t constants[]\<close>, entry by entry
  in the order of the source; the last entry is \<^verbatim>\<open>{ NULL, 0 }\<close>.
\<close>

definition constants :: "platform \<Rightarrow> constant_t list" where
  "constants p =
     [ \<lparr>name = Some ''SIOCGIFFLAGS'', value = to_uint64 (SIOCGIFFLAGS p)\<rparr>,
       \<lparr>name = Some ''SIOCSIFFLAGS'', value = to_uint64 (SIOCSIFFLAGS p)\<rparr>,
       \<lparr>name = None, value = 0\<rparr> ]"

subsection \<open>Memory and the accessor\<close>

text \<open>
  The array has static storage duration: it is one object of the process, placed at an
  address chosen when the program is linked and loaded, and holding its initialiser
  before any code runs. The memory maps the address of an array object to its entries;
  a \<^verbatim>\<open>constant_t*\<close> is null or the address of the first entry of such an object.
\<close>

type_synonym addr = nat

datatype ptr = NULL | Ptr addr

type_synonym memory = "addr \<rightharpoonup> constant_t list"

record image =
  target :: platform
  constants_addr :: addr

definition load :: "image \<Rightarrow> memory" where
  "load im = [constants_addr im \<mapsto> constants (target im)]"

fun deref :: "memory \<Rightarrow> ptr \<Rightarrow> constant_t list option" where
  "deref m NULL = None"
| "deref m (Ptr a) = m a"

text \<open>
  \<^verbatim>\<open>constant_t* rust_get_constants() { static constant_t constants[] = {...}; return constants; }\<close>

  The body is the single \<^verbatim>\<open>return\<close>: the result is the address of the static array, and
  the memory after the call is the memory before it.
\<close>

definition rust_get_constants :: "image \<Rightarrow> memory \<Rightarrow> ptr \<times> memory" where
  "rust_get_constants im m = (Ptr (constants_addr im), m)"

text \<open>A run of the process that calls the accessor \<open>n\<close> times, one call after the other:
  the pointers returned, in order, and the memory after the last call.\<close>

fun calls :: "image \<Rightarrow> nat \<Rightarrow> memory \<Rightarrow> ptr list \<times> memory" where
  "calls im 0 m = ([], m)"
| "calls im (Suc n) m =
     (case rust_get_constants im m of
        (p, m') \<Rightarrow> (case calls im n m' of (ps, m'') \<Rightarrow> (p # ps, m'')))"

definition after_calls :: "image \<Rightarrow> nat \<Rightarrow> memory" where
  "after_calls im n = snd (calls im n (load im))"

text \<open>What a caller reads through the pointer that a call in memory \<open>m\<close> returns.\<close>

definition returned_table :: "image \<Rightarrow> memory \<Rightarrow> constant_t list option" where
  "returned_table im m = (case rust_get_constants im m of (p, m') \<Rightarrow> deref m' p)"

text \<open>A name is empty when it is the null pointer or the empty string.\<close>

definition empty_name :: "string option \<Rightarrow> bool" where
  "empty_name n \<longleftrightarrow> n = None \<or> n = Some []"

text \<open>The entries a caller sees when it iterates a table and stops at the first empty
  name.\<close>

definition real_entries :: "constant_t list \<Rightarrow> constant_t list" where
  "real_entries t = takeWhile (\<lambda>e. \<not> empty_name (name e)) t"

section \<open>Properties\<close>

subsection \<open>Calls leave the memory alone\<close>

lemma calls_memory: "snd (calls im n m) = m"
proof (induction n arbitrary: m)
  case 0
  show ?case by simp
next
  case (Suc n)
  obtain ps m' where run: "calls im n m = (ps, m')"
    by (cases "calls im n m")
  from Suc [of m] run have "m' = m" by simp
  with run show ?case by (simp add: rust_get_constants_def)
qed

lemma calls_pointers: "fst (calls im n m) = replicate n (Ptr (constants_addr im))"
proof (induction n arbitrary: m)
  case 0
  show ?case by simp
next
  case (Suc n)
  obtain ps m' where run: "calls im n m = (ps, m')"
    by (cases "calls im n m")
  from Suc [of m] run have "ps = replicate n (Ptr (constants_addr im))" by simp
  with run show ?case by (simp add: rust_get_constants_def)
qed

lemma after_calls_load: "after_calls im n = load im"
  by (simp add: after_calls_def calls_memory)

lemma returned_table_after_calls:
  "returned_table im (after_calls im n) = Some (constants (target im))"
  by (simp add: returned_table_def rust_get_constants_def after_calls_load load_def)

subsection \<open>Shape of the table\<close>

text \<open>
  C1. Every call of \<open>rust_get_constants\<close>, after any number of earlier calls, returns a
  table that is not empty, whose last entry is the sentinel (null name, value 0), and in
  which no entry before the last has an empty name.
\<close>

theorem rust_get_constants_sentinel_last:
  "\<exists>t. returned_table im (after_calls im n) = Some t \<and> t \<noteq> [] \<and>
       last t = \<lparr>name = None, value = 0\<rparr> \<and>
       (\<forall>e \<in> set (butlast t). \<not> empty_name (name e))"
  by (simp add: returned_table_after_calls constants_def empty_name_def)

theorem rust_get_constants_sentinel_last_witness:
  "\<exists>t. returned_table \<lparr>target = \<lparr>SIOCGIFFLAGS = 0x8913, SIOCSIFFLAGS = 0x8914\<rparr>,
                        constants_addr = 4096\<rparr>
         (after_calls \<lparr>target = \<lparr>SIOCGIFFLAGS = 0x8913, SIOCSIFFLAGS = 0x8914\<rparr>,
                        constants_addr = 4096\<rparr> 2) = Some t \<and>
       length t = 3 \<and> last t = \<lparr>name = None, value = 0\<rparr> \<and>
       map name (butlast t) = [Some ''SIOCGIFFLAGS'', Some ''SIOCSIFFLAGS''] \<and>
       \<not> empty_name (name (t ! 0)) \<and> \<not> empty_name (name (t ! 1))"
  using rust_get_constants_sentinel_last
    [of "\<lparr>target = \<lparr>SIOCGIFFLAGS = 0x8913, SIOCSIFFLAGS = 0x8914\<rparr>, constants_addr = 4096\<rparr>" 2]
  by (simp add: returned_table_after_calls constants_def empty_name_def)

text \<open>
  The stored value is zero exactly when the header's value is a multiple of \<open>2 ^ 64\<close>;
  a non-zero value of a 64-bit integer type, signed or unsigned, never is.
\<close>

lemma to_uint64_eq_0_iff: "to_uint64 v = 0 \<longleftrightarrow> v mod 2 ^ 64 = 0"
  by (simp add: to_uint64_def word_of_int_eq_0_iff mod_eq_0_iff_dvd)

lemma uint_to_uint64: "uint (to_uint64 v) = v mod 2 ^ 64"
  by (simp add: to_uint64_def uint_word_of_int)

text \<open>
  C2. On a platform whose headers give both constants a non-zero value (as a
  \<^verbatim>\<open>uint64_t\<close>: not a multiple of \<open>2 ^ 64\<close>), every call returns a table in which
  iterating up to the first empty name yields exactly two entries, in the order of the
  source: first the one named \<^verbatim>\<open>SIOCGIFFLAGS\<close>, then the one named \<^verbatim>\<open>SIOCSIFFLAGS\<close>,
  each with a non-zero value, and the sentinel follows them.
\<close>

theorem rust_get_constants_two_entries:
  assumes "SIOCGIFFLAGS (target im) mod 2 ^ 64 \<noteq> 0"
    and "SIOCSIFFLAGS (target im) mod 2 ^ 64 \<noteq> 0"
  shows "\<exists>t g s. returned_table im (after_calls im n) = Some t \<and>
           real_entries t = [g, s] \<and>
           name g = Some ''SIOCGIFFLAGS'' \<and> name s = Some ''SIOCSIFFLAGS'' \<and>
           value g \<noteq> 0 \<and> value s \<noteq> 0 \<and>
           t = [g, s, \<lparr>name = None, value = 0\<rparr>]"
proof -
  let ?g = "\<lparr>name = Some ''SIOCGIFFLAGS'', value = to_uint64 (SIOCGIFFLAGS (target im))\<rparr>"
  let ?s = "\<lparr>name = Some ''SIOCSIFFLAGS'', value = to_uint64 (SIOCSIFFLAGS (target im))\<rparr>"
  have table: "returned_table im (after_calls im n) = Some [?g, ?s, \<lparr>name = None, value = 0\<rparr>]"
    by (simp add: returned_table_after_calls constants_def)
  have scan: "real_entries [?g, ?s, \<lparr>name = None, value = 0\<rparr>] = [?g, ?s]"
    by (simp add: real_entries_def empty_name_def)
  have "value ?g \<noteq> 0" and "value ?s \<noteq> 0"
    using assms by (simp_all add: to_uint64_eq_0_iff)
  with table scan show ?thesis
    by (intro exI [of _ "[?g, ?s, \<lparr>name = None, value = 0\<rparr>]"] exI [of _ ?g] exI [of _ ?s]) simp
qed

theorem rust_get_constants_two_entries_witness:
  "(0x8913 :: int) mod 2 ^ 64 \<noteq> 0 \<and> (0x8914 :: int) mod 2 ^ 64 \<noteq> 0 \<and>
   (\<exists>t g s. returned_table \<lparr>target = \<lparr>SIOCGIFFLAGS = 0x8913, SIOCSIFFLAGS = 0x8914\<rparr>,
                              constants_addr = 4096\<rparr>
               (after_calls \<lparr>target = \<lparr>SIOCGIFFLAGS = 0x8913, SIOCSIFFLAGS = 0x8914\<rparr>,
                              constants_addr = 4096\<rparr> 1) = Some t \<and>
      real_entries t = [g, s] \<and>
      g = \<lparr>name = Some ''SIOCGIFFLAGS'', value = 0x8913\<rparr> \<and>
      s = \<lparr>name = Some ''SIOCSIFFLAGS'', value = 0x8914\<rparr> \<and>
      value g \<noteq> 0 \<and> value s \<noteq> 0 \<and>
      t = [g, s, \<lparr>name = None, value = 0\<rparr>])"
proof -
  let ?im = "\<lparr>target = \<lparr>SIOCGIFFLAGS = 0x8913, SIOCSIFFLAGS = 0x8914\<rparr>, constants_addr = 4096\<rparr>"
  have g: "SIOCGIFFLAGS (target ?im) mod 2 ^ 64 \<noteq> 0" by simp
  have s: "SIOCSIFFLAGS (target ?im) mod 2 ^ 64 \<noteq> 0" by simp
  from rust_get_constants_two_entries [OF g s, of 1]
  show ?thesis
    by (simp add: returned_table_after_calls constants_def to_uint64_def)
qed

text \<open>
  C3. In the table every call returns, the entry named \<^verbatim>\<open>SIOCGIFFLAGS\<close> holds the
  platform's value of \<^verbatim>\<open>SIOCGIFFLAGS\<close> and the entry named \<^verbatim>\<open>SIOCSIFFLAGS\<close> holds the
  platform's value of \<^verbatim>\<open>SIOCSIFFLAGS\<close>: the field is the header's value as the
  initialiser converts it to \<^verbatim>\<open>uint64_t\<close>, and it is numerically the header's value
  whenever that value is one a \<^verbatim>\<open>uint64_t\<close> can hold. Both entries are in the table.
\<close>

theorem rust_get_constants_platform_values:
  "\<exists>t. returned_table im (after_calls im n) = Some t \<and>
     (\<exists>e \<in> set t. name e = Some ''SIOCGIFFLAGS'') \<and>
     (\<exists>e \<in> set t. name e = Some ''SIOCSIFFLAGS'') \<and>
     (\<forall>e \<in> set t. name e = Some ''SIOCGIFFLAGS'' \<longrightarrow>
        value e = to_uint64 (SIOCGIFFLAGS (target im)) \<and>
        (0 \<le> SIOCGIFFLAGS (target im) \<and> SIOCGIFFLAGS (target im) < 2 ^ 64 \<longrightarrow>
           uint (value e) = SIOCGIFFLAGS (target im))) \<and>
     (\<forall>e \<in> set t. name e = Some ''SIOCSIFFLAGS'' \<longrightarrow>
        value e = to_uint64 (SIOCSIFFLAGS (target im)) \<and>
        (0 \<le> SIOCSIFFLAGS (target im) \<and> SIOCSIFFLAGS (target im) < 2 ^ 64 \<longrightarrow>
           uint (value e) = SIOCSIFFLAGS (target im)))"
  by (simp add: returned_table_after_calls constants_def uint_to_uint64)

theorem rust_get_constants_platform_values_witness:
  "\<exists>t. returned_table \<lparr>target = \<lparr>SIOCGIFFLAGS = 0x8913, SIOCSIFFLAGS = 0x8914\<rparr>,
                        constants_addr = 4096\<rparr>
         (after_calls \<lparr>target = \<lparr>SIOCGIFFLAGS = 0x8913, SIOCSIFFLAGS = 0x8914\<rparr>,
                        constants_addr = 4096\<rparr> 3) = Some t \<and>
       (0 :: int) \<le> 0x8913 \<and> (0x8914 :: int) < 2 ^ 64 \<and>
       name (t ! 0) = Some ''SIOCGIFFLAGS'' \<and> uint (value (t ! 0)) = 0x8913 \<and>
       name (t ! 1) = Some ''SIOCSIFFLAGS'' \<and> uint (value (t ! 1)) = 0x8914"
  using rust_get_constants_platform_values
    [of "\<lparr>target = \<lparr>SIOCGIFFLAGS = 0x8913, SIOCSIFFLAGS = 0x8914\<rparr>, constants_addr = 4096\<rparr>" 3]
  by (simp add: returned_table_after_calls constants_def uint_to_uint64)

subsection \<open>Repeated calls\<close>

text \<open>
  C4. The accessor is idempotent: the tables returned by any two calls of one process
  (the call after \<open>i\<close> earlier calls and the call after \<open>j\<close> earlier calls) have the
  same number of entries, the same names and the same values in the same order. And in
  any memory \<open>m\<close>, a second call right after a first returns what the first returned.
\<close>

theorem rust_get_constants_idempotent:
  "(\<exists>t1 t2. returned_table im (after_calls im i) = Some t1 \<and>
           returned_table im (after_calls im j) = Some t2 \<and>
           length t1 = length t2 \<and> map name t1 = map name t2 \<and>
           map value t1 = map value t2 \<and> t1 = t2) \<and>
   returned_table im (snd (rust_get_constants im m)) = returned_table im m"
proof (rule conjI)
  show "\<exists>t1 t2. returned_table im (after_calls im i) = Some t1 \<and>
           returned_table im (after_calls im j) = Some t2 \<and>
           length t1 = length t2 \<and> map name t1 = map name t2 \<and>
           map value t1 = map value t2 \<and> t1 = t2"
    by (simp add: returned_table_after_calls)
  show "returned_table im (snd (rust_get_constants im m)) = returned_table im m"
    by (simp add: returned_table_def rust_get_constants_def)
qed

text \<open>
  C5. The accessor takes no argument and cannot fail. In any memory the pointer it
  returns is not null, and in every state of a process run it points to an array object
  that holds a sentinel, so a scan for the null name ends inside the array.
\<close>

theorem rust_get_constants_cannot_fail:
  "fst (rust_get_constants im m) \<noteq> NULL \<and>
   (\<exists>a t. rust_get_constants im (after_calls im n) = (Ptr a, after_calls im n) \<and>
          after_calls im n a = Some t \<and>
          find (\<lambda>e. name e = None) t = Some \<lparr>name = None, value = 0\<rparr>)"
  by (simp add: rust_get_constants_def after_calls_load load_def constants_def)

text \<open>
  C6. The accessor has no side effect: one call, and any number of calls, leave the whole
  memory as it was. So throughout a process run the static array holds its initialiser,
  which depends on the target platform only.
\<close>

theorem constants_immutable:
  "snd (rust_get_constants im m) = m \<and> snd (calls im n m) = m \<and>
   after_calls im n = load im \<and>
   after_calls im n (constants_addr im) = Some (constants (target im))"
  by (simp add: rust_get_constants_def calls_memory after_calls_load load_def)

text \<open>
  C8. Every call returns the same pointer, the address of the one static array: the
  result does not depend on the memory, a run of \<open>n\<close> calls returns that address \<open>n\<close>
  times, and a call creates no object (no copy of the table is made).
\<close>

theorem rust_get_constants_same_pointer:
  "fst (rust_get_constants im m) = fst (rust_get_constants im m') \<and>
   fst (calls im n m) = replicate n (Ptr (constants_addr im)) \<and>
   dom (snd (rust_get_constants im m)) = dom m"
  by (simp add: rust_get_constants_def calls_pointers)

subsection \<open>The sentinel and the names\<close>

text \<open>
  C9. The name of the terminating entry is the null pointer and not the empty string.
  No entry of the table has the empty string as its name, so a scan that stops at the
  first name equal to \<^verbatim>\<open>""\<close> runs through the whole table without stopping, while a scan
  that stops at the null name stops at the last entry.
\<close>

theorem sentinel_name_is_null:
  "\<exists>t. returned_table im (after_calls im n) = Some t \<and>
       name (last t) = None \<and> name (last t) \<noteq> Some [] \<and>
       find (\<lambda>e. name e = Some []) t = None \<and>
       takeWhile (\<lambda>e. name e \<noteq> Some []) t = t \<and>
       takeWhile (\<lambda>e. name e \<noteq> None) t = butlast t"
  by (simp add: returned_table_after_calls constants_def)

text \<open>
  C10. The names of the real entries of the returned table are pairwise distinct, and
  at most one entry of the table has a given name \<open>s\<close>.
\<close>

theorem real_entry_names_distinct:
  "\<exists>t. returned_table im (after_calls im n) = Some t \<and>
       distinct (map name (real_entries t)) \<and>
       length (filter (\<lambda>e. name e = Some s) t) \<le> 1"
  by (auto simp add: returned_table_after_calls constants_def real_entries_def empty_name_def)

end
